theory Spec2Isabelle
  imports Main "HOL-Library.Multiset"
begin

section \<open>Python list slicing\<close>

text \<open>
  \<^verbatim>\<open>xs[i:]\<close> and \<^verbatim>\<open>xs[:j]\<close> for a Python integer bound: a negative bound counts
  from the end, and every bound is clamped into \<open>0 .. len(xs)\<close>. In particular
  \<^verbatim>\<open>xs[-0:]\<close> is \<^verbatim>\<open>xs[0:]\<close>, the whole list.
\<close>

definition py_slice_from :: "int \<Rightarrow> 'a list \<Rightarrow> 'a list" where
  "py_slice_from i xs =
     (let n = int (length xs);
          start = (if i < 0 then max 0 (n + i) else min i n)
      in drop (nat start) xs)"

definition py_slice_to :: "int \<Rightarrow> 'a list \<Rightarrow> 'a list" where
  "py_slice_to j xs =
     (let n = int (length xs);
          stop = (if j < 0 then max 0 (n + j) else min j n)
      in take (nat stop) xs)"

section \<open>Data model (memory/models.py)\<close>

text \<open>
  A \<^verbatim>\<open>datetime\<close> is a count of microseconds on its own time line, either naive
  (no time zone, what \<^verbatim>\<open>datetime.utcnow()\<close> returns) or aware (parsed from a string
  that carries a UTC offset).
\<close>

datatype datetime = Naive int | Aware int

record message =
  msg_id :: "string option"
  role :: string
  content :: string
  tool_name :: "string option"
  tool_call_id :: "string option"
  timestamp :: datetime

record conversation =
  conv_id :: "string option"
  conv_user_id :: string
  alexa_session_id :: "string option"
  messages :: "message list"
  started_at :: datetime
  ended_at :: "datetime option"
  summary :: "string option"

section \<open>Short-term memory (memory/short\_term.py)\<close>

record short_term_memory =
  max_messages :: int
  current_conversation :: "conversation option"
  message_buffer :: "message list"

text \<open>
  \<^verbatim>\<open>ShortTermMemory.add_message\<close>. The reading of the clock, \<open>ts\<close>, is an argument.
  The result is the constructed message and the memory after the call.
\<close>

definition add_message ::
  "int \<Rightarrow> string \<Rightarrow> string \<Rightarrow> string option \<Rightarrow> string option \<Rightarrow>
   short_term_memory \<Rightarrow> message \<times> short_term_memory" where
  "add_message ts r c tn tcid stm =
     (let m = \<lparr>msg_id = None, role = r, content = c, tool_name = tn,
                tool_call_id = tcid, timestamp = Naive ts\<rparr>
      in case current_conversation stm of
           None \<Rightarrow> (m, stm)
         | Some conv \<Rightarrow>
             (let appended = messages conv @ [m];
                  buf = message_buffer stm @ [m];
                  kept = (if int (length appended) > max_messages stm
                          then py_slice_from (- max_messages stm) appended
                          else appended)
              in (m, stm\<lparr>current_conversation := Some (conv\<lparr>messages := kept\<rparr>),
                        message_buffer := buf\<rparr>)))"

text \<open>The arguments of one \<^verbatim>\<open>add_message\<close> call, and a sequence of calls.\<close>

record add_call =
  call_ts :: int
  call_role :: string
  call_content :: string
  call_tool_name :: "string option"
  call_tool_call_id :: "string option"

definition message_of :: "add_call \<Rightarrow> message" where
  "message_of a = \<lparr>msg_id = None, role = call_role a, content = call_content a,
                   tool_name = call_tool_name a, tool_call_id = call_tool_call_id a,
                   timestamp = Naive (call_ts a)\<rparr>"

definition add_call_step :: "short_term_memory \<Rightarrow> add_call \<Rightarrow> short_term_memory" where
  "add_call_step stm a =
     snd (add_message (call_ts a) (call_role a) (call_content a)
            (call_tool_name a) (call_tool_call_id a) stm)"

fun add_messages :: "short_term_memory \<Rightarrow> add_call list \<Rightarrow> short_term_memory" where
  "add_messages stm [] = stm"
| "add_messages stm (a # as) = add_messages (add_call_step stm a) as"

text \<open>The stored log of the active conversation.\<close>

definition stored_log :: "short_term_memory \<Rightarrow> message list" where
  "stored_log stm = (case current_conversation stm of None \<Rightarrow> [] | Some conv \<Rightarrow> messages conv)"

text \<open>A memory holding the conversation \<open>conv\<close>, emptied, with maximum \<open>n\<close>.\<close>

definition fresh_memory :: "int \<Rightarrow> conversation \<Rightarrow> short_term_memory" where
  "fresh_memory n conv =
     \<lparr>max_messages = n, current_conversation = Some (conv\<lparr>messages := []\<rparr>),
      message_buffer = []\<rparr>"

definition example_conversation :: conversation where
  "example_conversation =
     \<lparr>conv_id = Some ''c1'', conv_user_id = ''u1'', alexa_session_id = None,
      messages = [], started_at = Naive 0, ended_at = None, summary = None\<rparr>"

definition example_call :: "int \<Rightarrow> add_call" where
  "example_call k = \<lparr>call_ts = k, call_role = ''user'', call_content = ''hi'',
                      call_tool_name = None, call_tool_call_id = None\<rparr>"

section \<open>Voice-length truncation (agent/core.py)\<close>

text \<open>
  \<^verbatim>\<open>str.rfind(c)\<close> for a single character: the highest index holding \<open>c\<close>, or \<open>-1\<close>.
\<close>

fun rfind :: "char \<Rightarrow> string \<Rightarrow> int" where
  "rfind c [] = - 1"
| "rfind c (x # xs) =
     (let r = rfind c xs in if 0 \<le> r then r + 1 else if x = c then 0 else - 1)"

text \<open>
  \<^verbatim>\<open>JarvisAgent._truncate_for_voice\<close>, with \<^verbatim>\<open>settings.max_response_length\<close> as the
  argument \<open>B\<close> (a Python integer read from the environment).
\<close>

definition break_point :: "string \<Rightarrow> int" where
  "break_point truncated =
     max (rfind (CHR ''.'') truncated)
         (max (rfind (CHR ''?'') truncated) (rfind (CHR ''!'') truncated))"

definition truncate_for_voice :: "int \<Rightarrow> string \<Rightarrow> string" where
  "truncate_for_voice B text =
     (if int (length text) \<le> B then text
      else let truncated = py_slice_to B text;
               bp = break_point truncated
           in if bp > B div 2 then py_slice_to (bp + 1) text
              else truncated @ ''...'')"

text \<open>
  The vocabulary of the specification: a sentence end is a period, a question mark
  or an exclamation mark, and \<open>rightmost_break s\<close> is the index of the last one in
  \<open>s\<close>, if there is one.
\<close>

definition sentence_end :: "char \<Rightarrow> bool" where
  "sentence_end c = (c = CHR ''.'' \<or> c = CHR ''?'' \<or> c = CHR ''!'')"

fun rightmost_break :: "string \<Rightarrow> nat option" where
  "rightmost_break [] = None"
| "rightmost_break (x # xs) =
     (case rightmost_break xs of
        Some p \<Rightarrow> Some (Suc p)
      | None \<Rightarrow> if sentence_end x then Some 0 else None)"

text \<open>
  Truncation as the specification words it: cut after the rightmost sentence end of
  the first \<open>B\<close> characters when its index is at or after the midpoint of \<open>B\<close>,
  otherwise the first \<open>B\<close> characters and an ellipsis.
\<close>

definition truncate_spec :: "nat \<Rightarrow> string \<Rightarrow> string" where
  "truncate_spec B text =
     (case rightmost_break (take B text) of
        Some p \<Rightarrow> if B \<le> 2 * p then take (Suc p) text else take B text @ ''...''
      | None \<Rightarrow> take B text @ ''...'')"

section \<open>User roles and importance (memory/models.py)\<close>

datatype user_role = ADULT | CHILD | ELDERLY | MAID | GUEST

datatype importance = LOW | NORMAL | HIGH | CRITICAL

datatype validation_error = ValueError

fun role_value :: "user_role \<Rightarrow> string" where
  "role_value ADULT = ''adult''"
| "role_value CHILD = ''child''"
| "role_value ELDERLY = ''elderly''"
| "role_value MAID = ''maid''"
| "role_value GUEST = ''guest''"

text \<open>
  \<^verbatim>\<open>UserRole(value)\<close>, which is also how a \<^verbatim>\<open>UserProfile\<close> validates its role field
  (\<^verbatim>\<open>_row_to_user\<close> calls it on the stored string): the member with that value, or a
  \<^verbatim>\<open>ValueError\<close>.
\<close>

definition UserRole :: "string \<Rightarrow> validation_error + user_role" where
  "UserRole v =
     (if v = ''adult'' then Inr ADULT
      else if v = ''child'' then Inr CHILD
      else if v = ''elderly'' then Inr ELDERLY
      else if v = ''maid'' then Inr MAID
      else if v = ''guest'' then Inr GUEST
      else Inl ValueError)"

text \<open>The set of role names the specification lists.\<close>

definition spec_roles :: "string set" where
  "spec_roles = {''adult'', ''child'', ''elderly'', ''staff'', ''guest''}"

section \<open>Python strings\<close>

text \<open>
  Text is a list of code points below 256. \<^verbatim>\<open>str.isspace\<close> holds there for the code
  points 9 to 13, 28 to 32, 133 and 160; \<^verbatim>\<open>str.lower\<close> moves A to Z and the capital
  letters 192 to 222 (but not the sign 215) up by 32 and leaves the rest.
\<close>

definition py_isspace :: "char \<Rightarrow> bool" where
  "py_isspace c =
     (let n = (of_char c :: nat)
      in (9 \<le> n \<and> n \<le> 13) \<or> (28 \<le> n \<and> n \<le> 32) \<or> n = 133 \<or> n = 160)"

definition py_lower_char :: "char \<Rightarrow> char" where
  "py_lower_char c =
     (let n = (of_char c :: nat)
      in if (65 \<le> n \<and> n \<le> 90) \<or> (192 \<le> n \<and> n \<le> 222 \<and> n \<noteq> 215)
         then char_of (n + 32) else c)"

definition py_lower :: "string \<Rightarrow> string" where
  "py_lower s = map py_lower_char s"

text \<open>
  \<^verbatim>\<open>str.split()\<close> with no argument: the maximal runs of characters that are not
  white space, in order. \<open>w\<close> is the word being read.
\<close>

fun split_words :: "string \<Rightarrow> string \<Rightarrow> string list" where
  "split_words w [] = (if w = [] then [] else [w])"
| "split_words w (c # cs) =
     (if py_isspace c then (if w = [] then [] else [w]) @ split_words [] cs
      else split_words (w @ [c]) cs)"

definition py_split :: "string \<Rightarrow> string list" where
  "py_split s = split_words [] s"

record user_fact =
  fact_id :: "string option"
  fact_user_id :: string
  fact :: string
  category :: string
  importance :: importance
  source_conversation :: "string option"
  created_at :: datetime
  last_referenced :: "datetime option"
  reference_count :: int

section \<open>Relevance scoring (storage/supabase\_client.py)\<close>

datatype type_error = TypeError

text \<open>
  \<^verbatim>\<open>(datetime.utcnow() - last_referenced).days\<close>: the whole days (rounded down) between
  a stored time and the naive reading \<open>now\<close> of the clock. Subtracting an aware
  \<^verbatim>\<open>datetime\<close> from a naive one raises \<^verbatim>\<open>TypeError\<close>.
\<close>

definition days_ago :: "int \<Rightarrow> datetime \<Rightarrow> type_error + int" where
  "days_ago now t =
     (case t of
        Naive u \<Rightarrow> Inr ((now - u) div 86400000000)
      | Aware u \<Rightarrow> Inl TypeError)"

text \<open>The body of the scoring loop for one fact; \<open>context_words\<close> is the set built before it.\<close>

definition fact_score :: "int \<Rightarrow> string set \<Rightarrow> user_fact \<Rightarrow> int" where
  "fact_score now context_words f =
     (let fact_words = set (py_split (py_lower (fact f)));
          overlap = context_words \<inter> fact_words;
          score = int (card overlap) * 2;
          score = (if importance f = CRITICAL then score + 5
                   else if importance f = HIGH then score + 3 else score);
          score = (case last_referenced f of
                     None \<Rightarrow> score
                   | Some t \<Rightarrow>
                       (case days_ago now t of
                          Inr d \<Rightarrow> if d < 7 then score + 2 else score
                        | Inl e \<Rightarrow> score))
      in score)"

text \<open>
  The loop over the fetched facts, appending \<open>(score, fact)\<close> to \<open>scored_facts\<close>
  when the score is positive. \<open>clock i\<close> is what \<^verbatim>\<open>datetime.utcnow()\<close> returns while the
  fact at position \<open>i\<close> is scored.
\<close>

fun score_loop ::
  "(nat \<Rightarrow> int) \<Rightarrow> string set \<Rightarrow> nat \<Rightarrow> user_fact list \<Rightarrow>
   (int \<times> user_fact) list \<Rightarrow> (int \<times> user_fact) list" where
  "score_loop clock cw i [] scored_facts = scored_facts"
| "score_loop clock cw i (f # fs) scored_facts =
     (let score = fact_score (clock i) cw f
      in score_loop clock cw (Suc i) fs
           (if 0 < score then scored_facts @ [(score, f)] else scored_facts))"

text \<open>
  \<^verbatim>\<open>scored_facts.sort(key=lambda x: x[0], reverse=True)\<close>: Python's sort is stable, also
  with \<^verbatim>\<open>reverse=True\<close>; it is the stable sort by the negated key.
\<close>

definition sort_reverse :: "(int \<times> user_fact) list \<Rightarrow> (int \<times> user_fact) list" where
  "sort_reverse xs = sort_key (\<lambda>x. - fst x) xs"

definition rank_facts ::
  "(nat \<Rightarrow> int) \<Rightarrow> user_fact list \<Rightarrow> string \<Rightarrow> (int \<times> user_fact) list" where
  "rank_facts clock all_facts context =
     (let context_lower = py_lower context;
          context_words = set (py_split context_lower)
      in sort_reverse (score_loop clock context_words 0 all_facts []))"

text \<open>
  \<^verbatim>\<open>SupabaseStorage.get_relevant_facts\<close>, after the fetch: \<open>all_facts\<close> is what
  \<^verbatim>\<open>self.get_facts(user_id, limit=100)\<close> returned.
\<close>

definition get_relevant_facts ::
  "(nat \<Rightarrow> int) \<Rightarrow> user_fact list \<Rightarrow> string \<Rightarrow> int \<Rightarrow> user_fact list" where
  "get_relevant_facts clock all_facts context limit =
     (if all_facts = [] then []
      else map snd (py_slice_to limit (rank_facts clock all_facts context)))"

text \<open>The vocabulary of the specification.\<close>

definition words_of :: "string \<Rightarrow> string set" where
  "words_of s = set (py_split (py_lower s))"

definition shared_words :: "string \<Rightarrow> user_fact \<Rightarrow> nat" where
  "shared_words query f = card (words_of query \<inter> words_of (fact f))"

definition importance_bonus :: "user_fact \<Rightarrow> int" where
  "importance_bonus f = (if importance f = CRITICAL then 5 else if importance f = HIGH then 3 else 0)"

text \<open>One day, in microseconds.\<close>

definition day :: int where
  "day = 86400000000"

text \<open>
  The recency test as the specification words it: the fact was last referenced within
  the 7 days before \<open>now\<close>, whatever the representation of that time.
\<close>

definition instant :: "datetime \<Rightarrow> int" where
  "instant t = (case t of Naive u \<Rightarrow> u | Aware u \<Rightarrow> u)"

definition referenced_within_7_days :: "int \<Rightarrow> user_fact \<Rightarrow> bool" where
  "referenced_within_7_days now f =
     (case last_referenced f of
        None \<Rightarrow> False
      | Some t \<Rightarrow> 0 \<le> now - instant t \<and> now - instant t < 7 * day)"

definition spec_score :: "int \<Rightarrow> string \<Rightarrow> user_fact \<Rightarrow> int" where
  "spec_score now query f =
     2 * int (shared_words query f) + importance_bonus f
       + (if referenced_within_7_days now f then 2 else 0)"

text \<open>The fetched facts with their scores, in fetch order, those of score 0 left out.\<close>

definition scored_in_fetch_order ::
  "(nat \<Rightarrow> int) \<Rightarrow> string \<Rightarrow> user_fact list \<Rightarrow> (int \<times> user_fact) list" where
  "scored_in_fetch_order clock query fs =
     filter (\<lambda>p. 0 < fst p)
       (map (\<lambda>(i, f). (fact_score (clock i) (words_of query) f, f)) (zip [0..<length fs] fs))"

definition example_fact :: "string \<Rightarrow> importance \<Rightarrow> datetime option \<Rightarrow> user_fact" where
  "example_fact txt imp lr =
     \<lparr>fact_id = Some ''f'', fact_user_id = ''u1'', fact = txt, category = ''other'',
      importance = imp, source_conversation = None, created_at = Naive 0,
      last_referenced = lr, reference_count = 0\<rparr>"

definition example_query :: string where
  "example_query = ''tea and chai please''"

definition example_f1 :: user_fact where
  "example_f1 = example_fact ''Owns a dog'' CRITICAL None"

definition example_f2 :: user_fact where
  "example_f2 = example_fact ''Likes masala chai and TEA'' NORMAL None"

definition example_f3 :: user_fact where
  "example_f3 = example_fact ''likes tea'' HIGH (Some (Naive (7 * day)))"

section \<open>The agent and its collaborators (agent/core.py)\<close>

text \<open>
  \<^verbatim>\<open>UserProfile\<close>. The order limit (a float) and the medical record are left out:
  no function modelled here reads them.
\<close>

record user_profile =
  profile_id :: string
  profile_name :: string
  profile_role :: user_role
  age :: "int option"
  voice_id :: "string option"
  preferred_language :: string
  preferred_response_length :: string
  requires_approval :: bool
  can_approve_orders :: bool
  total_conversations :: int
  profile_created_at :: "datetime option"
  last_interaction :: "datetime option"

text \<open>JSON values (numbers are integers here), and an exception with its text.\<close>

datatype json =
  JNull | JBool bool | JNum int | JStr string | JList "json list" | JObj "(string \<times> json) list"

datatype exn = Exception string

text \<open>
  What \<^verbatim>\<open>json.loads\<close> does with a string: it returns a value, raises
  \<^verbatim>\<open>JSONDecodeError\<close>, or raises another exception (\<^verbatim>\<open>RecursionError\<close> on nesting
  deeper than the interpreter allows, \<^verbatim>\<open>ValueError\<close> on a number of more than 4300
  digits).
\<close>

datatype loads_result = Loaded json | JSONDecodeError | LoadsRaised exn

text \<open>
  \<^verbatim>\<open>ToolResult\<close> (tools/base.py). Its data either serialises to JSON or makes
  \<^verbatim>\<open>json.dumps\<close> raise an exception with the given text.
\<close>

datatype tool_data = JsonData json | Unserializable string

record tool_result =
  success :: bool
  data :: "tool_data option"
  error :: "string option"
  result_message :: "string option"

text \<open>The tool instances of tools/\_\_init\_\_.py, with the user ids they are bound to.\<close>

datatype tool =
  WeatherTool | CalculatorTool | CurrentTimeTool
  | SetReminderTool string | GetRemindersTool string
  | AddToGroceryListTool string string | ViewGroceryListTool string
  | CreateOrderRequestTool string string

definition get_tool_registry :: "string \<Rightarrow> (string \<times> tool) list" where
  "get_tool_registry uid =
     [(''get_weather'', WeatherTool),
      (''calculator'', CalculatorTool),
      (''get_current_time'', CurrentTimeTool),
      (''set_reminder'', SetReminderTool uid),
      (''get_reminders'', GetRemindersTool uid),
      (''add_to_grocery_list'', AddToGroceryListTool uid uid),
      (''view_grocery_list'', ViewGroceryListTool uid),
      (''create_order_request'', CreateOrderRequestTool uid uid)]"

text \<open>The declared tools, by name (their descriptions and schemas are constants).\<close>

definition get_tool_definitions :: "string \<Rightarrow> string list" where
  "get_tool_definitions uid =
     [''get_weather'', ''calculator'', ''get_current_time'',
      ''set_reminder'', ''get_reminders'', ''add_to_grocery_list'',
      ''view_grocery_list'', ''create_order_request'']"

text \<open>What the completion service is sent and what it answers.\<close>

record tool_call =
  tc_id :: string
  tc_name :: string
  tc_arguments :: string

datatype llm_message =
  ChatMessage string string
  | AssistantToolCalls "string option" "tool_call list"
  | ToolMessage "string option" string

record assistant_message =
  am_content :: "string option"
  am_tool_calls :: "tool_call list"

text \<open>What \<^verbatim>\<open>MemoryExtractor.extract_and_save\<close> returns: the summary and the facts.\<close>

record extracted =
  ex_summary :: "string option"
  ex_facts :: "json list"

text \<open>
  The calls the agent makes to its collaborators (the store, the extractor, the
  completion service, the tools), in the order it makes them.
\<close>

datatype event =
  GetUser string
  | CreateUser user_profile
  | CreateConversation string "string option"
  | SaveConversation conversation
  | ExtractAndSave conversation
  | GenerateSummary conversation
  | IncrementConversationCount string
  | BuildContext string string
  | ChatCompletion "llm_message list" "string list"
  | ToolExecute tool json

text \<open>
  The collaborators and the settings. Each collaborator answers from the calls made
  so far and its arguments; \<open>Inl\<close> is a raised exception. \<^verbatim>\<open>storage.get_user\<close> catches
  its own exceptions and returns \<^verbatim>\<open>None\<close>; \<open>context_prompt\<close> is the body of the
  \<^verbatim>\<open>try\<close> of \<^verbatim>\<open>_build_system_prompt\<close>; \<open>utcnow\<close> is the reading of the clock.
  \<open>tool_execute\<close> is the evaluation of \<^verbatim>\<open>tool.execute(**tool_args)\<close>, recorded as
  \<open>ToolExecute\<close>: its exception is one of the tool or one of the call itself, when the
  arguments are no dictionary or do not fit the tool's parameters.
\<close>

record env =
  default_user_id :: string
  max_response_length :: int
  system_prompt_base :: string
  utcnow :: "event list \<Rightarrow> int"
  storage_get_user :: "event list \<Rightarrow> string \<Rightarrow> user_profile option"
  storage_create_user :: "event list \<Rightarrow> user_profile \<Rightarrow> exn + user_profile"
  storage_create_conversation ::
    "event list \<Rightarrow> string \<Rightarrow> string option \<Rightarrow> exn + string option \<times> datetime"
  storage_save_conversation :: "event list \<Rightarrow> conversation \<Rightarrow> exn option"
  extract_and_save :: "event list \<Rightarrow> conversation \<Rightarrow> exn + extracted"
  generate_summary :: "event list \<Rightarrow> conversation \<Rightarrow> exn + string option"
  context_prompt :: "event list \<Rightarrow> user_profile \<Rightarrow> string \<Rightarrow> exn + string"
  chat_completion :: "event list \<Rightarrow> llm_message list \<Rightarrow> string list \<Rightarrow> exn + assistant_message"
  tool_execute :: "event list \<Rightarrow> tool \<Rightarrow> json \<Rightarrow> exn + tool_result"
  json_loads :: "string \<Rightarrow> loads_result"
  json_dumps :: "json \<Rightarrow> string"

text \<open>The state of a \<^verbatim>\<open>JarvisAgent\<close>, with the calls made so far.\<close>

record agent =
  short_term :: short_term_memory
  current_user :: "user_profile option"
  tool_registry :: "(string \<times> tool) list"
  tool_definitions :: "string list"
  calls :: "event list"

definition call :: "event \<Rightarrow> agent \<Rightarrow> agent" where
  "call ev ag = ag\<lparr>calls := calls ag @ [ev]\<rparr>"

subsection \<open>Session start\<close>

text \<open>\<^verbatim>\<open>ShortTermMemory.start_conversation\<close> with \<^verbatim>\<open>SupabaseStorage.create_conversation\<close>.\<close>

definition start_conversation ::
  "env \<Rightarrow> string \<Rightarrow> string option \<Rightarrow> agent \<Rightarrow> exn \<times> agent + conversation \<times> agent" where
  "start_conversation env uid sid ag =
     (let ag1 = call (CreateConversation uid sid) ag
      in case storage_create_conversation env (calls ag) uid sid of
           Inl e \<Rightarrow> Inl (e, ag1)
         | Inr (cid, started) \<Rightarrow>
             (let conv = \<lparr>conv_id = cid, conv_user_id = uid, alexa_session_id = sid,
                          messages = [], started_at = started, ended_at = None,
                          summary = None\<rparr>
              in Inr (conv, ag1\<lparr>short_term := (short_term ag1)
                                  \<lparr>current_conversation := Some conv, message_buffer := []\<rparr>\<rparr>)))"

definition new_profile :: "string \<Rightarrow> user_profile" where
  "new_profile uid =
     \<lparr>profile_id = uid, profile_name = ''Friend'', profile_role = ADULT, age = None,
      voice_id = None, preferred_language = ''english'',
      preferred_response_length = ''medium'', requires_approval = False,
      can_approve_orders = True, total_conversations = 0, profile_created_at = None,
      last_interaction = None\<rparr>"

text \<open>The user a session is for: \<^verbatim>\<open>user_id or settings.default_user_id\<close>.\<close>

definition session_user_id :: "env \<Rightarrow> string option \<Rightarrow> string" where
  "session_user_id env user_id =
     (case user_id of
        None \<Rightarrow> default_user_id env
      | Some u \<Rightarrow> if u = [] then default_user_id env else u)"

text \<open>Load the profile, or create it when the store has none.\<close>

definition load_or_create_user :: "env \<Rightarrow> string \<Rightarrow> agent \<Rightarrow> exn \<times> agent + user_profile \<times> agent" where
  "load_or_create_user env uid ag =
     (let ag1 = call (GetUser uid) ag
      in case storage_get_user env (calls ag) uid of
           Some user \<Rightarrow> Inr (user, ag1)
         | None \<Rightarrow>
             (let ag2 = call (CreateUser (new_profile uid)) ag1
              in case storage_create_user env (calls ag1) (new_profile uid) of
                   Inl e \<Rightarrow> Inl (e, ag2)
                 | Inr user \<Rightarrow> Inr (user, ag2)))"

definition start_session ::
  "env \<Rightarrow> string option \<Rightarrow> string option \<Rightarrow> agent \<Rightarrow> exn \<times> agent + user_profile \<times> agent" where
  "start_session env user_id sid ag =
     (let uid = session_user_id env user_id
      in case load_or_create_user env uid ag of
           Inl x \<Rightarrow> Inl x
         | Inr (user, ag2) \<Rightarrow>
             (case start_conversation env uid sid (ag2\<lparr>current_user := Some user\<rparr>) of
                Inl x \<Rightarrow> Inl x
              | Inr (conv, ag3) \<Rightarrow>
                  Inr (user, ag3\<lparr>tool_registry := get_tool_registry uid,
                                 tool_definitions := get_tool_definitions uid\<rparr>)))"

subsection \<open>The tool-dispatch loop\<close>

definition failure_json :: "string \<Rightarrow> json" where
  "failure_json msg = JObj [(''success'', JBool False), (''error'', JStr msg)]"

definition opt_str :: "string option \<Rightarrow> json" where
  "opt_str s = (case s of None \<Rightarrow> JNull | Some t \<Rightarrow> JStr t)"

text \<open>
  The \<^verbatim>\<open>try\<close> around \<^verbatim>\<open>tool.execute(**tool_args)\<close> and the \<^verbatim>\<open>json.dumps\<close> of its
  result: an exception of either gives the failure object.
\<close>

definition result_json :: "exn + tool_result \<Rightarrow> json" where
  "result_json r =
     (case r of
        Inl (Exception msg) \<Rightarrow> failure_json msg
      | Inr res \<Rightarrow>
          (case data res of
             Some (Unserializable msg) \<Rightarrow> failure_json msg
           | Some (JsonData d) \<Rightarrow>
               JObj [(''success'', JBool (success res)), (''data'', d),
                     (''message'', opt_str (result_message res)), (''error'', opt_str (error res))]
           | None \<Rightarrow>
               JObj [(''success'', JBool (success res)), (''data'', JNull),
                     (''message'', opt_str (result_message res)), (''error'', opt_str (error res))]))"

text \<open>
  The \<^verbatim>\<open>try\<close> around \<^verbatim>\<open>json.loads\<close> of the arguments: a \<^verbatim>\<open>JSONDecodeError\<close> gives the
  empty dictionary; the \<^verbatim>\<open>except\<close> clause names no other exception, so any other
  propagates.
\<close>

definition parse_arguments :: "env \<Rightarrow> tool_call \<Rightarrow> exn + json" where
  "parse_arguments env tc =
     (case json_loads env (tc_arguments tc) of
        Loaded args \<Rightarrow> Inr args
      | JSONDecodeError \<Rightarrow> Inr (JObj [])
      | LoadsRaised e \<Rightarrow> Inl e)"

text \<open>
  One pass of the loop body: the arguments are parsed, then the tool is looked up and
  the result content of the call is made, then the tool message is appended to the
  outgoing list and to the short-term memory. \<open>Inl\<close> is the exception that leaves the
  loop, with the state at the raise.
\<close>

definition dispatch_call ::
  "env \<Rightarrow> llm_message list \<times> agent \<Rightarrow> tool_call \<Rightarrow>
   exn \<times> (llm_message list \<times> agent) + llm_message list \<times> agent" where
  "dispatch_call env st tc =
     (case parse_arguments env tc of
        Inl e \<Rightarrow> Inl (e, st)
      | Inr tool_args \<Rightarrow>
          (let msgs = fst st; ag = snd st;
               tool_name = tc_name tc;
               (result_content, ag1) =
                 (case map_of (tool_registry ag) tool_name of
                    Some t \<Rightarrow>
                      (json_dumps env (result_json (tool_execute env (calls ag) t tool_args)),
                       call (ToolExecute t tool_args) ag)
                  | None \<Rightarrow>
                      (json_dumps env (failure_json (''Unknown tool: '' @ tool_name)), ag));
               stm = snd (add_message (utcnow env (calls ag1)) ''tool'' result_content
                            (Some tool_name) (Some (tc_id tc)) (short_term ag1))
           in Inr (msgs @ [ToolMessage (Some (tc_id tc)) result_content],
                   ag1\<lparr>short_term := stm\<rparr>)))"

text \<open>The \<^verbatim>\<open>for\<close> loop over the calls: an exception ends it.\<close>

fun dispatch_calls ::
  "env \<Rightarrow> llm_message list \<times> agent \<Rightarrow> tool_call list \<Rightarrow>
   exn \<times> (llm_message list \<times> agent) + llm_message list \<times> agent" where
  "dispatch_calls env st [] = Inr st"
| "dispatch_calls env st (tc # tcs) =
     (case dispatch_call env st tc of
        Inl x \<Rightarrow> Inl x
      | Inr st1 \<Rightarrow> dispatch_calls env st1 tcs)"

definition or_default :: "string option \<Rightarrow> string \<Rightarrow> string" where
  "or_default s d = (case s of None \<Rightarrow> d | Some t \<Rightarrow> if t = [] then d else t)"

text \<open>
  \<^verbatim>\<open>JarvisAgent._handle_tool_calls\<close>. An exception that leaves the loop leaves the
  function, before the follow-up completion request.
\<close>

definition handle_tool_calls ::
  "env \<Rightarrow> assistant_message \<Rightarrow> llm_message list \<Rightarrow> agent \<Rightarrow> exn \<times> agent + string \<times> agent" where
  "handle_tool_calls env am msgs ag =
     (let msgs1 = msgs @ [AssistantToolCalls (am_content am) (am_tool_calls am)]
      in case dispatch_calls env (msgs1, ag) (am_tool_calls am) of
           Inl (e, st) \<Rightarrow> Inl (e, snd st)
         | Inr (msgs2, ag1) \<Rightarrow>
             (let ag2 = call (ChatCompletion msgs2 []) ag1
              in case chat_completion env (calls ag1) msgs2 [] of
                   Inr final \<Rightarrow> Inr (or_default (am_content final) ''Done.'', ag2)
                 | Inl e \<Rightarrow>
                     Inr (''I completed the task, but had trouble summarizing it.'', ag2)))"

subsection \<open>Processing a turn\<close>

text \<open>\<^verbatim>\<open>ShortTermMemory.get_messages_for_llm\<close>.\<close>

definition format_message :: "message \<Rightarrow> llm_message" where
  "format_message m =
     (if role m = ''tool'' then ToolMessage (tool_call_id m) (content m)
      else ChatMessage (role m) (content m))"

definition get_messages_for_llm :: "short_term_memory \<Rightarrow> llm_message list" where
  "get_messages_for_llm stm =
     (case current_conversation stm of
        None \<Rightarrow> []
      | Some conv \<Rightarrow> map format_message (messages conv))"

text \<open>\<^verbatim>\<open>JarvisAgent._build_system_prompt\<close>.\<close>

definition build_system_prompt :: "env \<Rightarrow> string \<Rightarrow> agent \<Rightarrow> string \<times> agent" where
  "build_system_prompt env user_input ag =
     (case current_user ag of
        None \<Rightarrow> (system_prompt_base env, ag)
      | Some u \<Rightarrow>
          (case context_prompt env (calls ag) u user_input of
             Inr p \<Rightarrow> (p, call (BuildContext (profile_id u) user_input) ag)
           | Inl e \<Rightarrow> (system_prompt_base env, call (BuildContext (profile_id u) user_input) ag)))"

text \<open>
  The body of \<^verbatim>\<open>JarvisAgent.process\<close> after the session check. Its \<^verbatim>\<open>try\<close> holds the
  completion request and the call of \<^verbatim>\<open>_handle_tool_calls\<close>: an exception of either
  gives the apology.
\<close>

definition process_turn :: "env \<Rightarrow> string \<Rightarrow> agent \<Rightarrow> string \<times> agent" where
  "process_turn env user_input ag =
     (let ag1 = ag\<lparr>short_term := snd (add_message (utcnow env (calls ag)) ''user'' user_input
                                         None None (short_term ag))\<rparr>;
          (system_prompt, ag2) = build_system_prompt env user_input ag1;
          msgs = ChatMessage ''system'' system_prompt # get_messages_for_llm (short_term ag2);
          ag3 = call (ChatCompletion msgs (tool_definitions ag2)) ag2;
          (reply, ag4) =
            (case chat_completion env (calls ag2) msgs (tool_definitions ag2) of
               Inr am \<Rightarrow>
                 if am_tool_calls am \<noteq> []
                 then (case handle_tool_calls env am msgs ag3 of
                         Inr r \<Rightarrow> r
                       | Inl (e, ag') \<Rightarrow>
                           (''Sorry, I had trouble thinking about that. Could you try again?'',
                            ag'))
                 else (or_default (am_content am) ''I'm not sure how to respond to that.'', ag3)
             | Inl e \<Rightarrow> (''Sorry, I had trouble thinking about that. Could you try again?'', ag3));
          reply1 = (if int (length reply) > max_response_length env
                    then truncate_for_voice (max_response_length env) reply else reply)
      in (reply1, ag4\<lparr>short_term := snd (add_message (utcnow env (calls ag4)) ''assistant'' reply1
                                            None None (short_term ag4))\<rparr>))"

text \<open>\<^verbatim>\<open>JarvisAgent.process\<close>.\<close>

definition process :: "env \<Rightarrow> string \<Rightarrow> agent \<Rightarrow> exn \<times> agent + string \<times> agent" where
  "process env user_input ag =
     (if current_user ag = None
      then (case start_session env None None ag of
              Inl x \<Rightarrow> Inl x
            | Inr (user, ag1) \<Rightarrow> Inr (process_turn env user_input ag1))
      else Inr (process_turn env user_input ag))"

subsection \<open>Session end\<close>

text \<open>\<^verbatim>\<open>not summary\<close>: no summary, or an empty one.\<close>

definition falsy :: "string option \<Rightarrow> bool" where
  "falsy s = (case s of None \<Rightarrow> True | Some t \<Rightarrow> t = [])"

text \<open>
  The extraction block of \<^verbatim>\<open>end_session\<close> with its \<^verbatim>\<open>try\<close>: the summary it leaves
  and the agent after its calls.
\<close>

definition extract_learnings_block :: "env \<Rightarrow> conversation \<Rightarrow> agent \<Rightarrow> string option \<times> agent" where
  "extract_learnings_block env conversation ag =
     (let ag1 = call (ExtractAndSave conversation) ag
      in case extract_and_save env (calls ag) conversation of
           Inl e \<Rightarrow> (None, ag1)
         | Inr ex \<Rightarrow>
             if falsy (ex_summary ex)
             then (case generate_summary env (calls ag1) conversation of
                     Inr s \<Rightarrow> (s, call (GenerateSummary conversation) ag1)
                   | Inl e \<Rightarrow> (ex_summary ex, call (GenerateSummary conversation) ag1))
             else (ex_summary ex, ag1))"

text \<open>
  \<^verbatim>\<open>ShortTermMemory.end_conversation\<close>. A failed save is logged and changes nothing
  else.
\<close>

definition end_conversation :: "env \<Rightarrow> string option \<Rightarrow> agent \<Rightarrow> agent" where
  "end_conversation env summ ag =
     (case current_conversation (short_term ag) of
        None \<Rightarrow> ag
      | Some conv \<Rightarrow>
          (let ended = conv\<lparr>ended_at := Some (Naive (utcnow env (calls ag))), summary := summ\<rparr>;
               ag1 = call (SaveConversation ended) ag;
               ag2 = (case storage_save_conversation env (calls ag) ended of
                        None \<Rightarrow> ag1
                      | Some e \<Rightarrow> ag1)
           in ag2\<lparr>short_term := (short_term ag2)
                    \<lparr>current_conversation := None, message_buffer := []\<rparr>\<rparr>))"

text \<open>\<^verbatim>\<open>JarvisAgent.end_session\<close>.\<close>

definition end_session :: "env \<Rightarrow> bool \<Rightarrow> agent \<Rightarrow> agent" where
  "end_session env extract_learnings ag =
     (case current_conversation (short_term ag) of
        None \<Rightarrow> ag
      | Some conversation \<Rightarrow>
          (let (summ, ag1) =
                 (if extract_learnings \<and> 4 \<le> length (messages conversation)
                  then extract_learnings_block env conversation ag
                  else (None, ag));
               ag2 = end_conversation env summ ag1;
               ag3 = (case current_user ag2 of
                        None \<Rightarrow> ag2
                      | Some u \<Rightarrow> call (IncrementConversationCount (profile_id u)) ag2)
           in ag3\<lparr>current_user := None, tool_registry := [], tool_definitions := []\<rparr>))"

subsection \<open>Reading the calls\<close>

text \<open>The calls to the extractor, and the conversations handed to the store to save.\<close>

definition is_extractor_call :: "event \<Rightarrow> bool" where
  "is_extractor_call ev =
     (case ev of ExtractAndSave c \<Rightarrow> True | GenerateSummary c \<Rightarrow> True | _ \<Rightarrow> False)"

definition saved_conversations :: "event list \<Rightarrow> conversation list" where
  "saved_conversations evs =
     concat (map (\<lambda>ev. case ev of SaveConversation c \<Rightarrow> [c] | _ \<Rightarrow> []) evs)"

text \<open>The tool executions a batch of calls causes, with the registry \<open>reg\<close>.\<close>

definition executed_call :: "env \<Rightarrow> (string \<times> tool) list \<Rightarrow> tool_call \<Rightarrow> event list" where
  "executed_call env reg tc =
     (case parse_arguments env tc of
        Inl e \<Rightarrow> []
      | Inr args \<Rightarrow>
          (case map_of reg (tc_name tc) of
             None \<Rightarrow> []
           | Some t \<Rightarrow> [ToolExecute t args]))"

text \<open>The call ids that the tool messages of a list answer, in order.\<close>

definition tool_answers :: "llm_message list \<Rightarrow> string option list" where
  "tool_answers msgs =
     concat (map (\<lambda>m. case m of ToolMessage i c \<Rightarrow> [i] | _ \<Rightarrow> []) msgs)"

text \<open>The content recorded for a call that names no registered tool.\<close>

definition unknown_tool_content :: "env \<Rightarrow> tool_call \<Rightarrow> string" where
  "unknown_tool_content env tc = json_dumps env (failure_json (''Unknown tool: '' @ tc_name tc))"

section \<open>Example collaborators and agents\<close>

text \<open>
  A store with no users that never fails, a completion service that answers
  \<open>Hello.\<close>, tools that succeed, and a clock that counts the calls made.
\<close>

definition example_env :: env where
  "example_env =
     \<lparr>default_user_id = ''default-family-user'',
      max_response_length = 300,
      system_prompt_base = ''You are Jarvis.'',
      utcnow = (\<lambda>evs. int (length evs)),
      storage_get_user = (\<lambda>evs uid. None),
      storage_create_user = (\<lambda>evs p. Inr p),
      storage_create_conversation = (\<lambda>evs uid sid. Inr (Some ''c1'', Naive 0)),
      storage_save_conversation = (\<lambda>evs c. None),
      extract_and_save = (\<lambda>evs c. Inr \<lparr>ex_summary = Some ''They talked.'', ex_facts = []\<rparr>),
      generate_summary = (\<lambda>evs c. Inr None),
      context_prompt = (\<lambda>evs u q. Inl (Exception ''store unavailable'')),
      chat_completion = (\<lambda>evs msgs tools. Inr \<lparr>am_content = Some ''Hello.'', am_tool_calls = []\<rparr>),
      tool_execute = (\<lambda>evs t args.
         Inr \<lparr>success = True, data = None, error = None, result_message = Some ''done''\<rparr>),
      json_loads = (\<lambda>s. JSONDecodeError),
      json_dumps = (\<lambda>j. case j of
                          JObj [(a, JBool False), (b, JStr m)] \<Rightarrow> m
                        | _ \<Rightarrow> ''result'')\<rparr>"

definition idle_agent :: agent where
  "idle_agent =
     \<lparr>short_term = \<lparr>max_messages = 20, current_conversation = None, message_buffer = []\<rparr>,
      current_user = None, tool_registry = [], tool_definitions = [], calls = []\<rparr>"

definition example_short_conversation :: conversation where
  "example_short_conversation =
     example_conversation\<lparr>messages := [message_of (example_call 1), message_of (example_call 2)]\<rparr>"

definition example_agent :: agent where
  "example_agent =
     \<lparr>short_term = \<lparr>max_messages = 20,
                     current_conversation = Some example_short_conversation,
                     message_buffer = []\<rparr>,
      current_user = Some (new_profile ''u1''),
      tool_registry = get_tool_registry ''u1'',
      tool_definitions = get_tool_definitions ''u1'',
      calls = []\<rparr>"

definition example_known_call :: tool_call where
  "example_known_call = \<lparr>tc_id = ''call_2'', tc_name = ''calculator'', tc_arguments = ''{}''\<rparr>"

text \<open>
  Arguments of 100000 opening brackets, on which \<^verbatim>\<open>json.loads\<close> raises
  \<^verbatim>\<open>RecursionError\<close>, in a call that names an unregistered tool.
\<close>

definition deep_arguments :: string where
  "deep_arguments = replicate 100000 (CHR ''['')"

definition recursion_error :: exn where
  "recursion_error = Exception ''maximum recursion depth exceeded while decoding a JSON array''"

definition deep_env :: env where
  "deep_env =
     example_env\<lparr>json_loads :=
       (\<lambda>s. if s = deep_arguments then LoadsRaised recursion_error else JSONDecodeError)\<rparr>"

definition deep_unknown_call :: tool_call where
  "deep_unknown_call =
     \<lparr>tc_id = ''call_1'', tc_name = ''teleport'', tc_arguments = deep_arguments\<rparr>"

section \<open>Properties of the short-term memory\<close>

lemma add_call_step_None:
  "current_conversation stm = None \<Longrightarrow> add_call_step stm a = stm"
  by (simp add: add_call_step_def add_message_def)

lemma add_call_step_log:
  assumes "current_conversation stm = Some conv"
  shows "stored_log (add_call_step stm a) =
           (let appended = messages conv @ [message_of a]
            in if int (length appended) > max_messages stm
               then py_slice_from (- max_messages stm) appended else appended)"
  using assms
  by (simp add: add_call_step_def add_message_def stored_log_def message_of_def Let_def)

lemma add_call_step_active:
  "current_conversation stm \<noteq> None \<Longrightarrow> current_conversation (add_call_step stm a) \<noteq> None"
  by (auto simp: add_call_step_def add_message_def Let_def)

lemma add_call_step_max:
  "max_messages (add_call_step stm a) = max_messages stm"
  by (auto simp: add_call_step_def add_message_def Let_def split: option.splits)

lemma py_slice_from_last:
  "0 < n \<Longrightarrow> py_slice_from (- n) xs = drop (length xs - nat n) xs"
  by (auto simp: py_slice_from_def Let_def max_def nat_diff_distrib' nat_add_distrib
           intro!: arg_cong2 [where f = drop])

text \<open>
  With a maximum of at least 1, the log after any sequence of calls is the last
  \<open>N\<close> messages of everything appended so far.
\<close>

lemma add_call_step_window:
  assumes n: "1 \<le> max_messages stm"
    and act: "current_conversation stm \<noteq> None"
    and inv: "stored_log stm = drop (length hist - nat (max_messages stm)) hist"
  shows "stored_log (add_call_step stm a) =
           drop (length (hist @ [message_of a]) - nat (max_messages stm)) (hist @ [message_of a])"
proof -
  obtain conv where c: "current_conversation stm = Some conv"
    using act by auto
  let ?N = "nat (max_messages stm)"
  have log: "messages conv = drop (length hist - ?N) hist"
    using inv c by (simp add: stored_log_def)
  have pos: "0 < ?N" using n by simp
  show ?thesis
  proof (cases "length hist < ?N")
    case True
    then have "int (length (messages conv @ [message_of a])) \<le> max_messages stm"
      using log n by simp
    then show ?thesis
      using True log c by (simp add: add_call_step_log Let_def)
  next
    case False
    then have len: "length (messages conv) = ?N"
      using log by simp
    then have over: "int (length (messages conv @ [message_of a])) > max_messages stm"
      using n by simp
    have "py_slice_from (- max_messages stm) (messages conv @ [message_of a])
            = drop (length (messages conv @ [message_of a]) - ?N) (messages conv @ [message_of a])"
      using n by (intro py_slice_from_last) simp
    also have "\<dots> = drop 1 (messages conv) @ [message_of a]"
      using len pos by simp
    also have "\<dots> = drop (Suc (length hist - ?N)) hist @ [message_of a]"
      using log by simp
    also have "\<dots> = drop (length (hist @ [message_of a]) - ?N) (hist @ [message_of a])"
      using False pos by (simp add: Suc_diff_le)
    finally show ?thesis
      using over c by (simp add: add_call_step_log Let_def)
  qed
qed

lemma add_messages_window:
  assumes "1 \<le> max_messages stm"
    and "current_conversation stm \<noteq> None"
    and "stored_log stm = drop (length hist - nat (max_messages stm)) hist"
  shows "stored_log (add_messages stm as) =
           drop (length (hist @ map message_of as) - nat (max_messages stm))
                (hist @ map message_of as)"
  using assms
proof (induction as arbitrary: stm hist)
  case Nil
  then show ?case by simp
next
  case (Cons a as)
  have "stored_log (add_messages (add_call_step stm a) as) =
          drop (length ((hist @ [message_of a]) @ map message_of as)
                  - nat (max_messages (add_call_step stm a)))
               ((hist @ [message_of a]) @ map message_of as)"
  proof (rule Cons.IH)
    show "1 \<le> max_messages (add_call_step stm a)"
      using Cons.prems(1) by (simp add: add_call_step_max)
    show "current_conversation (add_call_step stm a) \<noteq> None"
      using Cons.prems(2) by (rule add_call_step_active)
    show "stored_log (add_call_step stm a) =
            drop (length (hist @ [message_of a]) - nat (max_messages (add_call_step stm a)))
                 (hist @ [message_of a])"
      using add_call_step_window [OF Cons.prems] by (simp add: add_call_step_max)
  qed
  then show ?case by (simp add: add_call_step_max)
qed

text \<open>
  The bounded window, for a maximum of at least 1: the log never exceeds \<open>N\<close>
  and is the last \<open>N\<close> appended messages in append order.
\<close>

lemma add_messages_bounded_window:
  assumes "1 \<le> n"
  shows "length (stored_log (add_messages (fresh_memory n conv) as)) \<le> nat n \<and>
         stored_log (add_messages (fresh_memory n conv) as) =
           drop (length as - nat n) (map message_of as)"
proof -
  have "stored_log (add_messages (fresh_memory n conv) as) =
          drop (length ([] @ map message_of as) - nat (max_messages (fresh_memory n conv)))
               ([] @ map message_of as)"
    by (rule add_messages_window) (use assms in \<open>simp_all add: fresh_memory_def stored_log_def\<close>)
  then have "stored_log (add_messages (fresh_memory n conv) as) =
               drop (length as - nat n) (map message_of as)"
    by (simp add: fresh_memory_def)
  then show ?thesis by simp
qed

text \<open>
  Claim C1, at the maximum 0. The trim \<^verbatim>\<open>messages[-self.max_messages:]\<close> is then
  \<^verbatim>\<open>messages[-0:]\<close>, the whole list: three calls on an empty conversation leave three
  messages in a log whose configured maximum is 0.
\<close>

theorem add_message_max_zero_keeps_all:
  "stored_log (add_messages (fresh_memory 0 example_conversation)
       [example_call 1, example_call 2, example_call 3])
     = map message_of [example_call 1, example_call 2, example_call 3]
   \<and> int (length (stored_log (add_messages (fresh_memory 0 example_conversation)
       [example_call 1, example_call 2, example_call 3]))) > 0"
  by (simp add: add_call_step_def add_message_def fresh_memory_def stored_log_def
      message_of_def example_call_def example_conversation_def py_slice_from_def Let_def)

text \<open>
  Claim C10. \<^verbatim>\<open>add_message\<close> with no active conversation returns the message built
  from its arguments and leaves the memory as it was: nothing is appended to a log
  or to the buffer.
\<close>

theorem add_message_no_conversation:
  "current_conversation stm = None \<Longrightarrow>
     add_message ts r c tn tcid stm =
       (\<lparr>msg_id = None, role = r, content = c, tool_name = tn,
         tool_call_id = tcid, timestamp = Naive ts\<rparr>, stm)"
  by (simp add: add_message_def)

theorem add_message_no_conversation_witness:
  "current_conversation \<lparr>max_messages = 20, current_conversation = None,
                          message_buffer = []\<rparr> = None
   \<and> add_message 7 ''user'' ''hello'' None None
        \<lparr>max_messages = 20, current_conversation = None, message_buffer = []\<rparr> =
       (\<lparr>msg_id = None, role = ''user'', content = ''hello'', tool_name = None,
         tool_call_id = None, timestamp = Naive 7\<rparr>,
        \<lparr>max_messages = 20, current_conversation = None, message_buffer = []\<rparr>)"
  using add_message_no_conversation
    [of "\<lparr>max_messages = 20, current_conversation = None, message_buffer = []\<rparr>"
        7 "''user''" "''hello''" None None]
  by simp

section \<open>Properties of the truncation\<close>

lemma rfind_lower: "- 1 \<le> rfind c s"
  by (induction s) (auto simp: Let_def)

lemma rfind_upper: "rfind c s < int (length s)"
  by (induction s) (auto simp: Let_def)

lemma rightmost_break_bound: "rightmost_break s = Some p \<Longrightarrow> p < length s"
  by (induction s arbitrary: p) (auto split: option.splits if_splits)

lemma rightmost_break_is_end: "rightmost_break s = Some p \<Longrightarrow> sentence_end (s ! p)"
  by (induction s arbitrary: p) (auto split: option.splits if_splits)

lemma rightmost_break_None: "rightmost_break s = None \<Longrightarrow> c \<in> set s \<Longrightarrow> \<not> sentence_end c"
  by (induction s) (auto split: option.splits if_splits)

lemma rightmost_break_last:
  "rightmost_break s = Some p \<Longrightarrow> p < q \<Longrightarrow> q < length s \<Longrightarrow> \<not> sentence_end (s ! q)"
proof (induction s arbitrary: p q)
  case Nil
  then show ?case by simp
next
  case (Cons x xs)
  show ?case
  proof (cases "rightmost_break xs")
    case None
    then have "s ! q \<in> set xs \<Longrightarrow> \<not> sentence_end (s ! q)" for s :: string
      by (rule rightmost_break_None)
    moreover have "(x # xs) ! q \<in> set xs"
      using Cons.prems(2,3) by (cases q) auto
    ultimately show ?thesis
      using None by (metis rightmost_break_None)
  next
    case (Some p')
    then have p: "p = Suc p'" using Cons.prems(1) by simp
    then obtain q' where q: "q = Suc q'" using Cons.prems(2) by (cases q) auto
    have "\<not> sentence_end (xs ! q')"
      using Cons.IH [OF Some, of q'] Cons.prems(2,3) p q by simp
    then show ?thesis using q by simp
  qed
qed

lemma break_point_Cons:
  "break_point (x # xs) =
     (if 0 \<le> break_point xs then break_point xs + 1
      else if sentence_end x then 0 else - 1)"
proof -
  have l: "- 1 \<le> rfind c xs" for c by (rule rfind_lower)
  show ?thesis
    using l [of "CHR ''.''"] l [of "CHR ''?''"] l [of "CHR ''!''"]
    by (auto simp: break_point_def sentence_end_def Let_def max_def)
qed

lemma break_point_rightmost:
  "break_point s = (case rightmost_break s of None \<Rightarrow> - 1 | Some p \<Rightarrow> int p)"
proof (induction s)
  case Nil
  show ?case by (simp add: break_point_def)
next
  case (Cons x xs)
  then show ?case
    by (simp add: break_point_Cons split: option.splits)
qed

lemma py_slice_to_take:
  "0 \<le> j \<Longrightarrow> py_slice_to j xs = take (nat j) xs"
  by (auto simp: py_slice_to_def Let_def min_def)

lemma truncate_for_voice_cases:
  assumes "0 \<le> B" and "B < int (length text)"
  shows "truncate_for_voice B text =
           (case rightmost_break (take (nat B) text) of
              Some p \<Rightarrow> if B div 2 < int p then take (Suc p) text
                        else take (nat B) text @ ''...''
            | None \<Rightarrow> take (nat B) text @ ''...'')"
proof (cases "rightmost_break (take (nat B) text)")
  case None
  then have "break_point (take (nat B) text) = - 1"
    by (simp add: break_point_rightmost)
  moreover have "\<not> (- 1 > B div 2)" using assms(1) by simp
  ultimately show ?thesis
    using assms None by (simp add: truncate_for_voice_def py_slice_to_take Let_def)
next
  case (Some p)
  then have bp: "break_point (take (nat B) text) = int p"
    by (simp add: break_point_rightmost)
  have "py_slice_to (int p + 1) text = take (Suc p) text"
    by (simp add: py_slice_to_take nat_add_distrib)
  then show ?thesis
    using assms Some bp by (simp add: truncate_for_voice_def py_slice_to_take Let_def)
qed

text \<open>
  Claim C3, as the code has it: the cut at the sentence end is taken only when its
  index is strictly greater than \<open>B div 2\<close>; at the midpoint itself, or before it, or
  with no sentence end in the first \<open>B\<close> characters, the result is the first \<open>B\<close>
  characters followed by three periods.
\<close>

theorem truncate_for_voice_break:
  "0 \<le> B \<Longrightarrow> B < int (length text) \<Longrightarrow>
     truncate_for_voice B text =
       (case rightmost_break (take (nat B) text) of
          Some p \<Rightarrow> if B div 2 < int p then take (Suc p) text
                    else take (nat B) text @ ''...''
        | None \<Rightarrow> take (nat B) text @ ''...'')"
  by (rule truncate_for_voice_cases)

theorem truncate_for_voice_break_witness:
  "(0::int) \<le> 4 \<and> 4 < int (length ''abc.e'') \<and> truncate_for_voice 4 ''abc.e'' = ''abc.''
   \<and> 4 < int (length ''ab.de'') \<and> truncate_for_voice 4 ''ab.de'' = ''ab.d...''"
  using truncate_for_voice_break [of 4 "''abc.e''"] truncate_for_voice_break [of 4 "''ab.de''"]
  by (simp add: sentence_end_def)

text \<open>
  The claim as worded fails where the sentence end sits exactly at the midpoint:
  with \<open>B = 4\<close> and the text \<open>ab.de\<close> the period has index 2, the specification cuts
  after it, and the code returns the first four characters and an ellipsis.
\<close>

theorem truncate_midpoint_counterexample:
  "4 < int (length ''ab.de'') \<and> rightmost_break (take 4 ''ab.de'') = Some 2
   \<and> truncate_spec 4 ''ab.de'' = ''ab.''
   \<and> truncate_for_voice 4 ''ab.de'' = ''ab.d...''
   \<and> truncate_for_voice 4 ''ab.de'' \<noteq> truncate_spec 4 ''ab.de''"
  by (simp add: truncate_spec_def truncate_for_voice_def py_slice_to_def break_point_def
      sentence_end_def Let_def)

text \<open>
  Claim C4. A text no longer than the budget is returned unchanged, and for a budget
  that is a character count (not negative) the result never has more than \<open>B + 3\<close>
  characters.
\<close>

theorem truncate_for_voice_bounded:
  "(int (length text) \<le> B \<longrightarrow> truncate_for_voice B text = text) \<and>
   (0 \<le> B \<longrightarrow> int (length (truncate_for_voice B text)) \<le> B + 3)"
proof (intro conjI impI)
  assume "int (length text) \<le> B"
  then show "truncate_for_voice B text = text"
    by (simp add: truncate_for_voice_def)
next
  assume B: "0 \<le> B"
  show "int (length (truncate_for_voice B text)) \<le> B + 3"
  proof (cases "int (length text) \<le> B")
    case True
    then show ?thesis by (simp add: truncate_for_voice_def)
  next
    case False
    then have long: "B < int (length text)" by simp
    show ?thesis
    proof (cases "rightmost_break (take (nat B) text)")
      case None
      then show ?thesis
        using B long by (simp add: truncate_for_voice_cases)
    next
      case (Some p)
      then have "p < length (take (nat B) text)"
        by (rule rightmost_break_bound)
      then have "p < nat B" by simp
      then have "int (Suc p) \<le> B" using B by linarith
      then show ?thesis
        using B long Some by (simp add: truncate_for_voice_cases)
    qed
  qed
qed

theorem truncate_for_voice_bounded_witness:
  "int (length ''short'') \<le> 10 \<and> truncate_for_voice 10 ''short'' = ''short''
   \<and> (0::int) \<le> 4 \<and> int (length (truncate_for_voice 4 ''ab.de'')) \<le> 4 + 3"
  using truncate_for_voice_bounded [of "''short''" 10] truncate_for_voice_bounded [of "''ab.de''" 4]
  by simp

section \<open>Properties of the role enumeration\<close>

text \<open>
  Claim C7, as the code has it: the roles are adult, child, elderly, maid and guest.
  Every role has one of these five names, the name of a role validates to that role,
  and validating a string fails exactly when it is none of the five.
\<close>

theorem user_role_closed_set:
  "role_value r \<in> {''adult'', ''child'', ''elderly'', ''maid'', ''guest''}
   \<and> UserRole (role_value r) = Inr r
   \<and> (UserRole v = Inl ValueError) = (v \<notin> {''adult'', ''child'', ''elderly'', ''maid'', ''guest''})"
  by (cases r) (auto simp: UserRole_def)

text \<open>
  The set the claim lists has \<open>staff\<close> where the code has \<open>maid\<close>: \<open>staff\<close> is a
  validation failure, and \<open>maid\<close>, which the claim excludes, is accepted.
\<close>

theorem user_role_staff_counterexample:
  "''staff'' \<in> spec_roles \<and> UserRole ''staff'' = Inl ValueError
   \<and> ''maid'' \<notin> spec_roles \<and> UserRole ''maid'' = Inr MAID"
  by (simp add: UserRole_def spec_roles_def)

section \<open>Properties of the relevance ranking\<close>

lemma fact_score_unreferenced:
  "last_referenced f = None \<Longrightarrow>
     fact_score now (words_of query) f =
       2 * int (shared_words query f) + importance_bonus f"
  by (simp add: fact_score_def shared_words_def words_of_def importance_bonus_def Let_def)

lemma fact_score_naive:
  "last_referenced f = Some (Naive u) \<Longrightarrow>
     fact_score now (words_of query) f =
       2 * int (shared_words query f) + importance_bonus f
         + (if now - u < 7 * day then 2 else 0)"
  by (auto simp: fact_score_def shared_words_def words_of_def importance_bonus_def
      days_ago_def day_def Let_def)

lemma score_loop_eq:
  "score_loop clock cw i fs acc =
     acc @ filter (\<lambda>p. 0 < fst p)
             (map (\<lambda>(j, f). (fact_score (clock j) cw f, f)) (zip [i..<i + length fs] fs))"
proof (induction fs arbitrary: i acc)
  case Nil
  then show ?case by simp
next
  case (Cons f fs)
  have "[i..<i + length (f # fs)] = i # [Suc i..<Suc i + length fs]"
    by (simp add: upt_rec)
  then show ?case
    by (simp add: Cons.IH Let_def)
qed

lemma rank_facts_mset:
  "mset (rank_facts clock fs query) = mset (scored_in_fetch_order clock query fs)"
  by (simp add: rank_facts_def sort_reverse_def score_loop_eq scored_in_fetch_order_def
      words_of_def Let_def)

lemma rank_facts_stable:
  "filter (\<lambda>p. fst p = k) (rank_facts clock fs query) =
   filter (\<lambda>p. fst p = k) (scored_in_fetch_order clock query fs)"
proof -
  have "filter (\<lambda>p. - fst p = - k) (sort_key (\<lambda>x. - fst x) xs) = filter (\<lambda>p. - fst p = - k) xs"
    for xs :: "(int \<times> user_fact) list"
    by (rule sort_key_stable)
  then show ?thesis
    by (simp add: rank_facts_def sort_reverse_def score_loop_eq scored_in_fetch_order_def
        words_of_def Let_def)
qed

lemma rank_facts_sorted:
  "sorted_wrt (\<lambda>p q. fst q \<le> fst p) (rank_facts clock fs query)"
proof -
  have "sorted (map (\<lambda>x. - fst x) (sort_key (\<lambda>x. - fst x) xs))"
    for xs :: "(int \<times> user_fact) list"
    by (rule sorted_sort_key)
  then have "sorted_wrt (\<lambda>p q. fst q \<le> fst p) (sort_key (\<lambda>x. - fst x) xs)"
    for xs :: "(int \<times> user_fact) list"
    by (simp add: sorted_wrt_map sorted_wrt_iff_nth_less)
  then show ?thesis
    by (simp add: rank_facts_def sort_reverse_def Let_def)
qed

lemma get_relevant_facts_take:
  assumes "0 \<le> limit"
  shows "get_relevant_facts clock fs query limit =
           map snd (take (nat limit) (rank_facts clock fs query))"
proof (cases "fs = []")
  case True
  then show ?thesis
    by (simp add: get_relevant_facts_def rank_facts_def sort_reverse_def Let_def)
next
  case False
  then show ?thesis
    using assms by (simp add: get_relevant_facts_def py_slice_to_take)
qed

lemma rank_two_example:
  assumes "importance f1 = CRITICAL" "shared_words query f1 = 0" "last_referenced f1 = None"
    and "importance f2 = NORMAL" "shared_words query f2 = 3" "last_referenced f2 = None"
  shows "fact_score t1 (words_of query) f1 = 5"
    and "fact_score t2 (words_of query) f2 = 6"
    and "rank_facts clock [f1, f2] query = [(6, f2), (5, f1)]"
proof -
  show s1: "fact_score t1 (words_of query) f1 = 5" for t1
    using assms(1-3)
    by (simp add: fact_score_unreferenced importance_bonus_def)
  show s2: "fact_score t2 (words_of query) f2 = 6" for t2
    using assms(4-6)
    by (simp add: fact_score_unreferenced importance_bonus_def)
  show "rank_facts clock [f1, f2] query = [(6, f2), (5, f1)]"
    using s1 s2
    by (simp add: rank_facts_def sort_reverse_def Let_def words_of_def [symmetric])
qed


lemma example_shared:
  "shared_words example_query example_f1 = 0" "shared_words example_query example_f2 = 3"
  "shared_words example_query example_f3 = 1"
  by code_simp+



section \<open>Properties of the session end\<close>

lemma end_session_idle:
  "current_conversation (short_term ag) = None \<Longrightarrow> end_session env x ag = ag"
  by (simp add: end_session_def)

lemma end_session_short_calls:
  assumes "current_conversation (short_term ag) = Some conv"
    and "length (messages conv) < 4"
  shows "calls (end_session env x ag) =
           calls ag
           @ [SaveConversation
                (conv\<lparr>ended_at := Some (Naive (utcnow env (calls ag))), summary := None\<rparr>)]
           @ (case current_user ag of
                None \<Rightarrow> []
              | Some u \<Rightarrow> [IncrementConversationCount (profile_id u)])"
  using assms
  by (simp add: end_session_def end_conversation_def call_def Let_def split: option.splits)

lemma end_session_short_state:
  assumes "current_conversation (short_term ag) = Some conv"
    and "length (messages conv) < 4"
  shows "current_conversation (short_term (end_session env x ag)) = None"
    and "current_user (end_session env x ag) = None"
    and "tool_registry (end_session env x ag) = []"
  using assms
  by (simp_all add: end_session_def end_conversation_def call_def Let_def split: option.splits)

text \<open>
  Claim C6. With no active conversation \<^verbatim>\<open>end_session\<close> returns the agent as it
  was and calls nothing. With an active conversation of fewer than 4 messages its
  calls are the save of the conversation, carrying no summary, and the increment of
  the user's conversation count: the extractor is not called, and the session state
  is cleared.
\<close>

theorem end_session_short_conversation:
  "(current_conversation (short_term ag) = None \<longrightarrow> end_session env x ag = ag)
   \<and> (current_conversation (short_term ag) = Some conv \<and> length (messages conv) < 4 \<longrightarrow>
        calls (end_session env x ag) =
          calls ag
          @ [SaveConversation
               (conv\<lparr>ended_at := Some (Naive (utcnow env (calls ag))), summary := None\<rparr>)]
          @ (case current_user ag of
               None \<Rightarrow> []
             | Some u \<Rightarrow> [IncrementConversationCount (profile_id u)])
        \<and> filter is_extractor_call (calls (end_session env x ag)) =
            filter is_extractor_call (calls ag)
        \<and> map summary (saved_conversations (calls (end_session env x ag))) =
            map summary (saved_conversations (calls ag)) @ [None]
        \<and> current_conversation (short_term (end_session env x ag)) = None
        \<and> current_user (end_session env x ag) = None)"
proof (intro conjI impI)
  assume "current_conversation (short_term ag) = None"
  then show "end_session env x ag = ag" by (rule end_session_idle)
next
  assume a: "current_conversation (short_term ag) = Some conv \<and> length (messages conv) < 4"
  then have c: "calls (end_session env x ag) =
          calls ag
          @ [SaveConversation
               (conv\<lparr>ended_at := Some (Naive (utcnow env (calls ag))), summary := None\<rparr>)]
          @ (case current_user ag of
               None \<Rightarrow> []
             | Some u \<Rightarrow> [IncrementConversationCount (profile_id u)])"
    using end_session_short_calls [of ag conv env x] by blast
  then show "calls (end_session env x ag) =
          calls ag
          @ [SaveConversation
               (conv\<lparr>ended_at := Some (Naive (utcnow env (calls ag))), summary := None\<rparr>)]
          @ (case current_user ag of
               None \<Rightarrow> []
             | Some u \<Rightarrow> [IncrementConversationCount (profile_id u)])" .
  show "filter is_extractor_call (calls (end_session env x ag)) =
          filter is_extractor_call (calls ag)"
    unfolding c by (cases "current_user ag") (simp_all add: is_extractor_call_def)
  show "map summary (saved_conversations (calls (end_session env x ag))) =
          map summary (saved_conversations (calls ag)) @ [None]"
    unfolding c by (cases "current_user ag") (simp_all add: saved_conversations_def)
  show "current_conversation (short_term (end_session env x ag)) = None"
    using a end_session_short_state(1) [of ag conv env x] by blast
  show "current_user (end_session env x ag) = None"
    using a end_session_short_state(2) [of ag conv env x] by blast
qed

theorem end_session_short_conversation_witness:
  "current_conversation (short_term idle_agent) = None
   \<and> end_session example_env True idle_agent = idle_agent
   \<and> current_conversation (short_term example_agent) = Some example_short_conversation
   \<and> length (messages example_short_conversation) < 4
   \<and> calls (end_session example_env True example_agent) =
       [SaveConversation (example_short_conversation\<lparr>ended_at := Some (Naive 0), summary := None\<rparr>),
        IncrementConversationCount ''u1'']"
proof -
  have h1: "current_conversation (short_term idle_agent) = None"
    by (simp add: idle_agent_def)
  have h2: "current_conversation (short_term example_agent) = Some example_short_conversation
            \<and> length (messages example_short_conversation) < 4"
    by (simp add: example_agent_def example_short_conversation_def)
  have "end_session example_env True idle_agent = idle_agent"
    using end_session_short_conversation [of idle_agent example_env True] h1 by blast
  moreover have "calls (end_session example_env True example_agent) =
          calls example_agent
          @ [SaveConversation
               (example_short_conversation
                  \<lparr>ended_at := Some (Naive (utcnow example_env (calls example_agent))),
                   summary := None\<rparr>)]
          @ (case current_user example_agent of
               None \<Rightarrow> []
             | Some u \<Rightarrow> [IncrementConversationCount (profile_id u)])"
    using end_session_short_conversation [of example_agent example_env True example_short_conversation]
      h2 by blast
  moreover have "calls example_agent = []" "utcnow example_env [] = 0"
    "current_user example_agent = Some (new_profile ''u1'')"
    "profile_id (new_profile ''u1'') = ''u1''"
    by (simp_all add: example_agent_def example_env_def new_profile_def)
  ultimately show ?thesis using h1 h2 by simp
qed

section \<open>Properties of the tool-dispatch loop\<close>

lemma dispatch_call_unknown:
  assumes "parse_arguments env tc = Inr args"
    and "map_of (tool_registry ag) (tc_name tc) = None"
  shows "dispatch_call env (msgs, ag) tc =
           Inr (msgs @ [ToolMessage (Some (tc_id tc)) (unknown_tool_content env tc)],
                ag\<lparr>short_term :=
                     snd (add_message (utcnow env (calls ag)) ''tool''
                            (unknown_tool_content env tc)
                            (Some (tc_name tc)) (Some (tc_id tc)) (short_term ag))\<rparr>)"
  using assms by (simp add: dispatch_call_def unknown_tool_content_def Let_def)

lemma dispatch_call_raise:
  "parse_arguments env tc = Inl e \<Longrightarrow> dispatch_call env st tc = Inl (e, st)"
  by (simp add: dispatch_call_def)

lemma dispatch_call_returns:
  assumes "dispatch_call env st tc = Inr st1"
  shows "tool_registry (snd st1) = tool_registry (snd st)"
    and "calls (snd st1) = calls (snd st) @ executed_call env (tool_registry (snd st)) tc"
    and "tool_answers (fst st1) = tool_answers (fst st) @ [Some (tc_id tc)]"
  using assms
  by (auto simp: dispatch_call_def executed_call_def tool_answers_def call_def Let_def
      split: sum.splits option.splits prod.splits)

text \<open>
  A batch whose arguments \<^verbatim>\<open>json.loads\<close> parses or rejects with \<^verbatim>\<open>JSONDecodeError\<close> is
  processed to its end: one tool message for each call, in call-list order, and the
  tools of the registered calls executed in that order.
\<close>

lemma dispatch_calls_returns:
  assumes "dispatch_calls env st tcs = Inr st1"
  shows "tool_registry (snd st1) = tool_registry (snd st)"
    and "calls (snd st1) =
           calls (snd st) @ concat (map (executed_call env (tool_registry (snd st))) tcs)"
    and "tool_answers (fst st1) = tool_answers (fst st) @ map (\<lambda>tc. Some (tc_id tc)) tcs"
  using assms
proof (induction tcs arbitrary: st)
  case Nil
  {
    case 1 then show ?case by simp
  next
    case 2 then show ?case by simp
  next
    case 3 then show ?case by simp
  }
next
  case (Cons tc tcs)
  {
    case 1
    then obtain st2 where a: "dispatch_call env st tc = Inr st2"
      and b: "dispatch_calls env st2 tcs = Inr st1"
      by (auto split: sum.splits)
    show ?case
      using Cons.IH(1) [OF b] dispatch_call_returns(1) [OF a] by simp
  next
    case 2
    then obtain st2 where a: "dispatch_call env st tc = Inr st2"
      and b: "dispatch_calls env st2 tcs = Inr st1"
      by (auto split: sum.splits)
    show ?case
      using Cons.IH(2) [OF b] dispatch_call_returns(1,2) [OF a] by simp
  next
    case 3
    then obtain st2 where a: "dispatch_call env st tc = Inr st2"
      and b: "dispatch_calls env st2 tcs = Inr st1"
      by (auto split: sum.splits)
    show ?case
      using Cons.IH(3) [OF b] dispatch_call_returns(3) [OF a] by simp
  }
qed

lemma dispatch_calls_total:
  assumes "\<And>tc. tc \<in> set tcs \<Longrightarrow> \<exists>args. parse_arguments env tc = Inr args"
  shows "\<exists>st1. dispatch_calls env st tcs = Inr st1"
  using assms
proof (induction tcs arbitrary: st)
  case Nil
  then show ?case by simp
next
  case (Cons tc tcs)
  obtain args where "parse_arguments env tc = Inr args"
    using Cons.prems [of tc] by auto
  then have "\<exists>st2. dispatch_call env st tc = Inr st2"
    by (simp add: dispatch_call_def Let_def split: prod.splits option.splits)
  then obtain st2 where "dispatch_call env st tc = Inr st2"
    by blast
  moreover have "\<exists>st1. dispatch_calls env st2 tcs = Inr st1"
    using Cons.prems by (intro Cons.IH) simp
  ultimately show ?case by simp
qed

text \<open>
  An exception of \<^verbatim>\<open>json.loads\<close> other than \<^verbatim>\<open>JSONDecodeError\<close> leaves the loop at that
  call: no tool message is recorded for it and the calls after it are not reached.
\<close>

lemma dispatch_calls_raise:
  assumes "dispatch_calls env st pre = Inr st1"
    and "json_loads env (tc_arguments tc) = LoadsRaised e"
  shows "dispatch_calls env st (pre @ tc # post) = Inl (e, st1)"
  using assms
proof (induction pre arbitrary: st)
  case Nil
  then show ?case
    by (simp add: dispatch_call_def parse_arguments_def)
next
  case (Cons a pre)
  then show ?case
    by (auto split: sum.splits)
qed

text \<open>
  Claim C5, at a batch of two calls whose first names the unregistered tool
  \<open>teleport\<close> and carries 100000 opening brackets as arguments. \<^verbatim>\<open>json.loads\<close>
  raises \<^verbatim>\<open>RecursionError\<close> on them, which \<^verbatim>\<open>except json.JSONDecodeError\<close> does not
  catch: the exception leaves the loop with no tool message appended, nothing
  recorded in the short-term memory, and the second call, to the registered
  calculator, never executed.
\<close>

theorem dispatch_uncaught_loads_error:
  "json_loads deep_env (tc_arguments deep_unknown_call) = LoadsRaised recursion_error
   \<and> map_of (tool_registry example_agent) (tc_name deep_unknown_call) = None
   \<and> map_of (tool_registry example_agent) (tc_name example_known_call) = Some CalculatorTool
   \<and> dispatch_calls deep_env ([], example_agent) [deep_unknown_call, example_known_call] =
       Inl (recursion_error, ([], example_agent))
   \<and> handle_tool_calls deep_env
        \<lparr>am_content = None, am_tool_calls = [deep_unknown_call, example_known_call]\<rparr>
        [] example_agent =
       Inl (recursion_error, example_agent)"
  by (simp add: deep_env_def deep_unknown_call_def example_known_call_def example_agent_def
      get_tool_registry_def dispatch_call_def parse_arguments_def handle_tool_calls_def)

section \<open>Properties of the session start\<close>

lemma load_or_create_user_result:
  assumes "load_or_create_user env uid ag = Inr (u, ag1)"
  shows "storage_get_user env (calls ag) uid = Some u \<or>
         (storage_get_user env (calls ag) uid = None \<and>
          storage_create_user env (calls ag @ [GetUser uid]) (new_profile uid) = Inr u)"
    and "short_term ag1 = short_term ag"
  using assms
  by (auto simp: load_or_create_user_def call_def Let_def split: option.splits sum.splits)

lemma load_or_create_user_raise:
  assumes "load_or_create_user env uid ag = Inl (e, ag1)"
  shows "storage_get_user env (calls ag) uid = None \<and>
         storage_create_user env (calls ag @ [GetUser uid]) (new_profile uid) = Inl e"
  using assms
  by (auto simp: load_or_create_user_def call_def Let_def split: option.splits sum.splits)

lemma start_conversation_result:
  assumes "start_conversation env uid sid ag = Inr (conv, ag1)"
  shows "current_conversation (short_term ag1) = Some conv"
    and "message_buffer (short_term ag1) = []"
    and "messages conv = []" and "conv_user_id conv = uid" and "summary conv = None"
    and "current_user ag1 = current_user ag"
  using assms
  by (auto simp: start_conversation_def call_def Let_def split: sum.splits prod.splits)

lemma start_session_result:
  assumes "start_session env user_id sid ag = Inr (u, ag1)"
  shows "current_user ag1 = Some u"
    and "storage_get_user env (calls ag) (session_user_id env user_id) = Some u \<or>
         (storage_get_user env (calls ag) (session_user_id env user_id) = None \<and>
          storage_create_user env (calls ag @ [GetUser (session_user_id env user_id)])
            (new_profile (session_user_id env user_id)) = Inr u)"
    and "\<exists>conv. current_conversation (short_term ag1) = Some conv \<and> messages conv = [] \<and>
           conv_user_id conv = session_user_id env user_id \<and> summary conv = None"
    and "message_buffer (short_term ag1) = []"
    and "tool_registry ag1 = get_tool_registry (session_user_id env user_id)"
proof -
  let ?uid = "session_user_id env user_id"
  obtain ag2 where l: "load_or_create_user env ?uid ag = Inr (u, ag2)"
    using assms by (auto simp: start_session_def Let_def split: sum.splits prod.splits)
  obtain conv ag3 where c: "start_conversation env ?uid sid (ag2\<lparr>current_user := Some u\<rparr>) = Inr (conv, ag3)"
    and r: "ag1 = ag3\<lparr>tool_registry := get_tool_registry ?uid,
                        tool_definitions := get_tool_definitions ?uid\<rparr>"
    using assms l by (auto simp: start_session_def Let_def split: sum.splits prod.splits)
  show "current_user ag1 = Some u"
    using start_conversation_result(6) [OF c] r by simp
  show "storage_get_user env (calls ag) ?uid = Some u \<or>
         (storage_get_user env (calls ag) ?uid = None \<and>
          storage_create_user env (calls ag @ [GetUser ?uid]) (new_profile ?uid) = Inr u)"
    by (rule load_or_create_user_result(1) [OF l])
  show "\<exists>conv. current_conversation (short_term ag1) = Some conv \<and> messages conv = [] \<and>
           conv_user_id conv = ?uid \<and> summary conv = None"
    using start_conversation_result(1,3,4,5) [OF c] r by simp
  show "message_buffer (short_term ag1) = []"
    using start_conversation_result(2) [OF c] r by simp
  show "tool_registry ag1 = get_tool_registry ?uid"
    using r by simp
qed

lemma process_active:
  "current_user ag \<noteq> None \<Longrightarrow> process env user_input ag = Inr (process_turn env user_input ag)"
  by (auto simp: process_def)

lemma process_idle:
  assumes "current_user ag = None"
  shows "process env user_input ag =
           (case start_session env None None ag of
              Inl x \<Rightarrow> Inl x
            | Inr (u, ag1) \<Rightarrow> process env user_input ag1)"
proof (cases "start_session env None None ag")
  case (Inl x)
  then show ?thesis using assms by (simp add: process_def)
next
  case (Inr r)
  obtain u ag1 where r: "r = (u, ag1)" by (cases r)
  have "current_user ag1 = Some u"
    using start_session_result(1) Inr r by blast
  then have "process env user_input ag1 = Inr (process_turn env user_input ag1)"
    by (simp add: process_active)
  then show ?thesis using assms Inr r by (simp add: process_def)
qed

lemma start_session_raise:
  assumes "start_session env None None ag = Inl (e, ag1)"
  shows "storage_create_user env (calls ag @ [GetUser (default_user_id env)])
           (new_profile (default_user_id env)) = Inl e
         \<or> (\<exists>evs. storage_create_conversation env evs (default_user_id env) None = Inl e)"
proof (cases "load_or_create_user env (default_user_id env) ag")
  case (Inl x)
  then have "x = (e, ag1)"
    using assms by (simp add: start_session_def session_user_id_def Let_def)
  then show ?thesis
    using load_or_create_user_raise [of env "default_user_id env" ag e ag1] Inl by simp
next
  case (Inr r)
  obtain u ag2 where r: "r = (u, ag2)" by (cases r)
  have "start_conversation env (default_user_id env) None (ag2\<lparr>current_user := Some u\<rparr>)
          = Inl (e, ag1)"
    using assms Inr r
    by (auto simp: start_session_def session_user_id_def Let_def split: sum.splits prod.splits)
  then have "storage_create_conversation env (calls (ag2\<lparr>current_user := Some u\<rparr>))
               (default_user_id env) None = Inl e"
    by (auto simp: start_conversation_def Let_def split: sum.splits prod.splits)
  then show ?thesis by blast
qed

text \<open>
  Claim C9. With no current user, \<^verbatim>\<open>process\<close> is \<^verbatim>\<open>start_session()\<close> for the default
  user id followed by the processing of the input in the started session. The started
  session has the profile the store holds for that id, or the one created for it, and
  a conversation with an empty log. \<^verbatim>\<open>process\<close> then returns a reply; it raises only
  what the store raised while the profile or the conversation was created.
\<close>

theorem process_without_session:
  "current_user ag = None \<Longrightarrow>
     process env user_input ag =
       (case start_session env None None ag of
          Inl x \<Rightarrow> Inl x
        | Inr (u, ag1) \<Rightarrow> process env user_input ag1)
     \<and> (\<forall>u ag1. start_session env None None ag = Inr (u, ag1) \<longrightarrow>
          current_user ag1 = Some u
          \<and> (storage_get_user env (calls ag) (default_user_id env) = Some u \<or>
             (storage_get_user env (calls ag) (default_user_id env) = None \<and>
              storage_create_user env (calls ag @ [GetUser (default_user_id env)])
                (new_profile (default_user_id env)) = Inr u))
          \<and> (\<exists>conv. current_conversation (short_term ag1) = Some conv \<and> messages conv = [] \<and>
                conv_user_id conv = default_user_id env \<and> summary conv = None)
          \<and> tool_registry ag1 = get_tool_registry (default_user_id env)
          \<and> process env user_input ag = Inr (process_turn env user_input ag1))
     \<and> (\<forall>e ag1. process env user_input ag = Inl (e, ag1) \<longrightarrow>
          storage_create_user env (calls ag @ [GetUser (default_user_id env)])
            (new_profile (default_user_id env)) = Inl e
          \<or> (\<exists>evs. storage_create_conversation env evs (default_user_id env) None = Inl e))"
proof (intro conjI allI impI)
  assume idle: "current_user ag = None"
  show "process env user_input ag =
       (case start_session env None None ag of
          Inl x \<Rightarrow> Inl x
        | Inr (u, ag1) \<Rightarrow> process env user_input ag1)"
    using idle by (rule process_idle)
  {
    fix u ag1
    assume s: "start_session env None None ag = Inr (u, ag1)"
    have d: "session_user_id env None = default_user_id env"
      by (simp add: session_user_id_def)
    show "current_user ag1 = Some u"
      by (rule start_session_result(1) [OF s])
    show "storage_get_user env (calls ag) (default_user_id env) = Some u \<or>
             (storage_get_user env (calls ag) (default_user_id env) = None \<and>
              storage_create_user env (calls ag @ [GetUser (default_user_id env)])
                (new_profile (default_user_id env)) = Inr u)"
      using start_session_result(2) [OF s] d by simp
    show "\<exists>conv. current_conversation (short_term ag1) = Some conv \<and> messages conv = [] \<and>
                conv_user_id conv = default_user_id env \<and> summary conv = None"
      using start_session_result(3) [OF s] d by simp
    show "tool_registry ag1 = get_tool_registry (default_user_id env)"
      using start_session_result(5) [OF s] d by simp
    show "process env user_input ag = Inr (process_turn env user_input ag1)"
      using idle s by (simp add: process_def)
  }
  {
    fix e ag1
    assume p: "process env user_input ag = Inl (e, ag1)"
    have "start_session env None None ag = Inl (e, ag1)"
      using p idle by (auto simp: process_def split: sum.splits prod.splits)
    then show "storage_create_user env (calls ag @ [GetUser (default_user_id env)])
            (new_profile (default_user_id env)) = Inl e
          \<or> (\<exists>evs. storage_create_conversation env evs (default_user_id env) None = Inl e)"
      by (rule start_session_raise)
  }
qed

lemma example_process:
  "map_sum fst fst (process example_env ''hi'' idle_agent) = Inr ''Hello.''"
  by code_simp

theorem process_without_session_witness:
  "current_user idle_agent = None
   \<and> process example_env ''hi'' idle_agent =
       (case start_session example_env None None idle_agent of
          Inl x \<Rightarrow> Inl x
        | Inr (u, ag1) \<Rightarrow> process example_env ''hi'' ag1)
   \<and> map_sum fst fst (process example_env ''hi'' idle_agent) = Inr ''Hello.''"
proof -
  have h: "current_user idle_agent = None"
    by (simp add: idle_agent_def)
  show ?thesis
    using process_without_session [OF h, of example_env "''hi''"] h example_process by blast
qed

end
